theory Spec2Isabelle
  imports Complex_Main
begin

section \<open>The rolling-mean signal pipeline of \<^verbatim>\<open>run.py\<close>\<close>

text \<open>
  The program is one Python script: it loads a YAML configuration, loads a CSV file into a
  pandas frame, derives the columns \<^verbatim>\<open>rolling_mean\<close> and \<^verbatim>\<open>signal\<close> from the column
  \<^verbatim>\<open>close\<close>, and writes a JSON report.

  A float64 cell is a \<^typ>\<open>rat option\<close>: the rational number that the cell holds, or
  \<^term>\<open>None\<close> for NaN (a missing value). An int64 cell is an \<^typ>\<open>int\<close>, and cannot be
  missing. The cast of an int64 cell to float64 rounds, as in the program. Sums and
  quotients of float64 cells are taken exactly: their rounding and their overflow are
  not modelled, and the statements below say where that matters.
\<close>

subsection \<open>Series operations (pandas)\<close>

text \<open>The observations of a window: its cells that are not NaN.\<close>

fun dropna :: "'a option list \<Rightarrow> 'a list" where
  "dropna [] = []"
| "dropna (None # xs) = dropna xs"
| "dropna (Some x # xs) = x # dropna xs"

text \<open>
  \<^verbatim>\<open>series.rolling(window=w)\<close> has the default \<^verbatim>\<open>min_periods = w\<close>, is not centred and is
  closed on the right: the window of row \<open>i\<close> holds the rows \<open>max 0 (i + 1 - w), \<dots>, i\<close>.
\<close>

definition window_at :: "nat \<Rightarrow> 'a list \<Rightarrow> nat \<Rightarrow> 'a list" where
  "window_at w xs i = drop (Suc i - w) (take (Suc i) xs)"

text \<open>
  \<^verbatim>\<open>.mean()\<close> of one window: the mean of its observations when there are at least
  \<^verbatim>\<open>min_periods\<close> of them (and at least one), NaN otherwise. The sum and the quotient
  are exact here; pandas keeps a running float64 sum, which rounds and can overflow.
\<close>

definition window_mean :: "nat \<Rightarrow> rat option list \<Rightarrow> rat option" where
  "window_mean minp win =
     (let obs = dropna win
      in if minp \<le> length obs \<and> 0 < length obs
         then Some (sum_list obs / of_nat (length obs))
         else None)"

text \<open>\<^verbatim>\<open>df["close"].rolling(window=window).mean()\<close> on a numeric column.\<close>

definition rolling_mean :: "nat \<Rightarrow> rat option list \<Rightarrow> rat option list" where
  "rolling_mean w xs = map (\<lambda>i. window_mean w (window_at w xs i)) [0..<length xs]"

text \<open>
  The comparison \<^verbatim>\<open>close > rolling_mean\<close> of two float64 cells: false as soon as one of
  them is NaN.
\<close>

fun cell_gt :: "rat option \<Rightarrow> rat option \<Rightarrow> bool" where
  "cell_gt (Some c) (Some m) = (m < c)"
| "cell_gt _ _ = False"

text \<open>
  \<^verbatim>\<open>(df["close"] > df["rolling_mean"]).astype(int)\<close>: the boolean column, cast to int64.
  The result is a column of integers; it has no missing cell.
\<close>

definition signal :: "rat option list \<Rightarrow> rat option list \<Rightarrow> int list" where
  "signal close rm = map (\<lambda>(c, m). if cell_gt c m then 1 else 0) (zip close rm)"

text \<open>\<^verbatim>\<open>.mean()\<close> of an int64 column: the sum over the row count, NaN for no row.\<close>

definition mean_int :: "int list \<Rightarrow> rat option" where
  "mean_int xs = (if xs = [] then None else Some (of_int (sum_list xs) / of_nat (length xs)))"

text \<open>The two derived columns and the metric, as \<^verbatim>\<open>main\<close> chains them.\<close>

definition signal_column :: "nat \<Rightarrow> rat option list \<Rightarrow> int list" where
  "signal_column w close = signal close (rolling_mean w close)"

definition signal_rate :: "nat \<Rightarrow> rat option list \<Rightarrow> rat option" where
  "signal_rate w close = mean_int (signal_column w close)"

subsection \<open>Python values and exceptions\<close>

text \<open>
  The values that YAML yields and that JSON can write: the parsed configuration and the
  report are both of this type. A dictionary is an association list with the keys that
  are strings, in insertion order.
\<close>

datatype pyval =
    PNone
  | PBool bool
  | PInt int
  | PFloat "rat option"
  | PStr string
  | PList "pyval list"
  | PDict "(string \<times> pyval) list"

text \<open>
  The exceptions the script raises or lets through, each with its message.
  \<open>OtherError\<close> is any other exception of a library (a YAML or CSV parse error).
\<close>

datatype error =
    FileNotFoundError string
  | ValueError string
  | TypeError string
  | KeyError string
  | DataError string
  | OtherError string

text \<open>\<^verbatim>\<open>str(e)\<close>. A \<^verbatim>\<open>KeyError\<close> prints its key quoted.\<close>

definition quoted :: "string \<Rightarrow> string" where
  "quoted s = CHR 0x27 # s @ [CHR 0x27]"

fun str_of_error :: "error \<Rightarrow> string" where
  "str_of_error (FileNotFoundError m) = m"
| "str_of_error (ValueError m) = m"
| "str_of_error (TypeError m) = m"
| "str_of_error (KeyError k) = quoted k"
| "str_of_error (DataError m) = m"
| "str_of_error (OtherError m) = m"

text \<open>Sequencing of steps that may raise: the first exception ends the block.\<close>

definition bindE :: "error + 'a \<Rightarrow> ('a \<Rightarrow> error + 'b) \<Rightarrow> error + 'b" where
  "bindE m f = (case m of Inl e \<Rightarrow> Inl e | Inr x \<Rightarrow> f x)"

fun type_name :: "pyval \<Rightarrow> string" where
  "type_name PNone = ''NoneType''"
| "type_name (PBool _) = ''bool''"
| "type_name (PInt _) = ''int''"
| "type_name (PFloat _) = ''float''"
| "type_name (PStr _) = ''str''"
| "type_name (PList _) = ''list''"
| "type_name (PDict _) = ''dict''"

text \<open>\<^verbatim>\<open>key in s\<close> for two strings: \<open>key\<close> occurs in \<open>s\<close> as a substring.\<close>

fun starts_with :: "string \<Rightarrow> string \<Rightarrow> bool" where
  "starts_with [] s = True"
| "starts_with (k # ks) [] = False"
| "starts_with (k # ks) (c # cs) = (k = c \<and> starts_with ks cs)"

fun str_contains :: "string \<Rightarrow> string \<Rightarrow> bool" where
  "str_contains key [] = (key = [])"
| "str_contains key (c # cs) = (starts_with key (c # cs) \<or> str_contains key cs)"

text \<open>
  \<^verbatim>\<open>key in config\<close> for a string \<open>key\<close>: a key of a dictionary, an element of a list, a
  substring of a string; a \<^verbatim>\<open>TypeError\<close> for a scalar.
\<close>

fun py_contains :: "pyval \<Rightarrow> string \<Rightarrow> error + bool" where
  "py_contains (PDict kvs) key = Inr (key \<in> set (map fst kvs))"
| "py_contains (PList vs) key = Inr (PStr key \<in> set vs)"
| "py_contains (PStr s) key = Inr (str_contains key s)"
| "py_contains v key =
     Inl (TypeError (''argument of type '' @ quoted (type_name v) @ '' is not iterable''))"

text \<open>\<^verbatim>\<open>config[key]\<close> for a string \<open>key\<close>.\<close>

fun py_getitem :: "pyval \<Rightarrow> string \<Rightarrow> error + pyval" where
  "py_getitem (PDict kvs) key =
     (case map_of kvs key of None \<Rightarrow> Inl (KeyError key) | Some v \<Rightarrow> Inr v)"
| "py_getitem (PList vs) key =
     Inl (TypeError ''list indices must be integers or slices, not str'')"
| "py_getitem (PStr s) key =
     Inl (TypeError (''string indices must be integers, not '' @ quoted ''str''))"
| "py_getitem v key =
     Inl (TypeError (quoted (type_name v) @ '' object is not subscriptable''))"

text \<open>\<^verbatim>\<open>isinstance(v, int)\<close>: \<^verbatim>\<open>bool\<close> is a subclass of \<^verbatim>\<open>int\<close> in Python.\<close>

fun isinstance_int :: "pyval \<Rightarrow> bool" where
  "isinstance_int (PInt _) = True"
| "isinstance_int (PBool _) = True"
| "isinstance_int _ = False"

fun isinstance_str :: "pyval \<Rightarrow> bool" where
  "isinstance_str (PStr _) = True"
| "isinstance_str _ = False"

text \<open>The integer that an \<^verbatim>\<open>int\<close> or a \<^verbatim>\<open>bool\<close> stands for in a comparison.\<close>

fun int_value :: "pyval \<Rightarrow> int" where
  "int_value (PInt n) = n"
| "int_value (PBool b) = (if b then 1 else 0)"
| "int_value _ = 0"

subsection \<open>The files and the parsers\<close>

text \<open>
  The file system maps a path to the text of the file there. \<^verbatim>\<open>yaml.safe_load\<close> and
  \<^verbatim>\<open>pandas.read_csv\<close> are library functions: the model takes them as parameters, from
  the text of a file to the parsed value or the exception raised. The name of the file,
  which the message of a parse error can carry, is not given to them.
\<close>

type_synonym filesystem = "string \<rightharpoonup> string"
type_synonym yaml_parser = "string \<Rightarrow> error + pyval"

text \<open>
  A column of a frame has dtype int64 (whole numbers, no cell missing), float64 (NaN for
  a missing cell) or object, when some cell is text. A frame lists its columns in order;
  its row count is the length of its columns.
\<close>

datatype column = IntCol "int list" | NumCol "rat option list" | ObjCol "string option list"

type_synonym dataframe = "(string \<times> column) list"
type_synonym csv_parser = "string \<Rightarrow> error + dataframe"

fun col_len :: "column \<Rightarrow> nat" where
  "col_len (IntCol ns) = length ns"
| "col_len (NumCol xs) = length xs"
| "col_len (ObjCol xs) = length xs"

fun len_df :: "dataframe \<Rightarrow> nat" where
  "len_df [] = 0"
| "len_df ((name, col) # cols) = col_len col"

text \<open>\<^verbatim>\<open>df.empty\<close>: no column or no row.\<close>

definition df_empty :: "dataframe \<Rightarrow> bool" where
  "df_empty df = (df = [] \<or> len_df df = 0)"

definition df_columns :: "dataframe \<Rightarrow> string list" where
  "df_columns df = map fst df"

definition df_getitem :: "dataframe \<Rightarrow> string \<Rightarrow> error + column" where
  "df_getitem df name = (case map_of df name of None \<Rightarrow> Inl (KeyError name) | Some col \<Rightarrow> Inr col)"

subsection \<open>\<^verbatim>\<open>load_config\<close>\<close>

definition required_keys :: "string list" where
  "required_keys = [''seed'', ''window'', ''version'']"

text \<open>The loop \<^verbatim>\<open>for key in required_keys: if key not in config: raise \<dots>\<close>.\<close>

fun check_required :: "pyval \<Rightarrow> string list \<Rightarrow> error + unit" where
  "check_required config [] = Inr ()"
| "check_required config (key # keys) =
     (case py_contains config key of
        Inl e \<Rightarrow> Inl e
      | Inr present \<Rightarrow>
          if \<not> present then Inl (ValueError (''Missing config key: '' @ key))
          else check_required config keys)"

definition load_config :: "yaml_parser \<Rightarrow> filesystem \<Rightarrow> string \<Rightarrow> error + pyval" where
  "load_config safe_load fs config_path =
     (case fs config_path of
        None \<Rightarrow> Inl (FileNotFoundError ''Config file not found'')
      | Some text \<Rightarrow>
          bindE (safe_load text) (\<lambda>config.
          if config = PNone then Inl (ValueError ''Config file is empty'')
          else
          bindE (check_required config required_keys) (\<lambda>_.
          bindE (py_getitem config ''seed'') (\<lambda>seed.
          if \<not> isinstance_int seed then Inl (ValueError ''Seed must be integer'')
          else
          bindE (py_getitem config ''window'') (\<lambda>window.
          if \<not> isinstance_int window \<or> int_value window \<le> 0
          then Inl (ValueError ''Window must be positive integer'')
          else
          bindE (py_getitem config ''version'') (\<lambda>version.
          if \<not> isinstance_str version then Inl (ValueError ''Version must be string'')
          else Inr config))))))"

subsection \<open>\<^verbatim>\<open>load_data\<close>\<close>

text \<open>Every exception of \<^verbatim>\<open>read_csv\<close> is caught and replaced by the \<^verbatim>\<open>ValueError\<close>.\<close>

definition load_data :: "csv_parser \<Rightarrow> filesystem \<Rightarrow> string \<Rightarrow> error + dataframe" where
  "load_data read_csv fs input_path =
     (case fs input_path of
        None \<Rightarrow> Inl (FileNotFoundError ''Input CSV file not found'')
      | Some text \<Rightarrow>
          (case read_csv text of
             Inl e \<Rightarrow> Inl (ValueError ''Invalid CSV file format'')
           | Inr df \<Rightarrow>
               if df_empty df then Inl (ValueError ''Input CSV file is empty'')
               else if ''close'' \<notin> set (df_columns df)
               then Inl (ValueError ''Missing required column: close'')
               else Inr df))"

subsection \<open>\<^verbatim>\<open>write_error\<close>\<close>

definition write_error :: "pyval \<Rightarrow> string \<Rightarrow> pyval" where
  "write_error version message =
     PDict [(''version'', version), (''status'', PStr ''error''), (''error_message'', PStr message)]"

subsection \<open>\<^verbatim>\<open>main\<close>\<close>

text \<open>
  A run is modelled from the point where the four arguments are parsed and the log file
  is set up. The output path is taken to be writable, so that writing the report does
  not raise. The wording of the messages of Python and of the libraries is that of
  recent releases.
\<close>

record args =
  arg_input :: string
  arg_config :: string
  arg_output :: string
  arg_log_file :: string

text \<open>
  What a run reads from outside: the files, and the clock at the two calls of
  \<^verbatim>\<open>time.time()\<close>, at the start and when the metrics are ready.
\<close>

record world =
  files :: filesystem
  time_start :: rat
  time_report :: rat

text \<open>
  \<^verbatim>\<open>np.random.seed(seed)\<close> accepts an integer from 0 to 2**32 - 1 (a \<^verbatim>\<open>bool\<close> counts as 0
  or 1). No later step draws a random number, so the state of the generator is not kept.
  The last equation is not reached from \<^verbatim>\<open>main\<close>, where \<^verbatim>\<open>load_config\<close> has checked the seed.
\<close>

fun np_random_seed :: "pyval \<Rightarrow> error + unit" where
  "np_random_seed (PInt n) =
     (if n < 0 \<or> 2 ^ 32 - 1 < n then Inl (ValueError ''Seed must be between 0 and 2**32 - 1'')
      else Inr ())"
| "np_random_seed (PBool b) = Inr ()"
| "np_random_seed v = Inl (TypeError ''seed is not an integer'')"

text \<open>
  \<^verbatim>\<open>series.rolling(window=window)\<close> checks its window when it is built: pandas accepts
  an integer that is not negative, and does not count a \<^verbatim>\<open>bool\<close> as an integer. A window
  of \<open>2^63\<close> or more, which does not fit a machine integer and makes pandas raise an
  \<^verbatim>\<open>OverflowError\<close>, is outside the model.
\<close>

fun rolling_window :: "pyval \<Rightarrow> error + nat" where
  "rolling_window (PInt n) =
     (if n < 0 then Inl (ValueError ''window must be an integer 0 or greater'') else Inr (nat n))"
| "rolling_window v = Inl (ValueError ''window must be an integer 0 or greater'')"

text \<open>Rounding to the nearest integer, a tie going to the even one.\<close>

definition round_half_even :: "rat \<Rightarrow> int" where
  "round_half_even x =
     (let f = \<lfloor>x\<rfloor>; d = x - of_int f
      in if d < 1 / 2 then f else if 1 / 2 < d then f + 1 else if even f then f else f + 1)"

text \<open>
  The cast of an int64 to float64: the nearest number with a significand of 53 bits, a
  tie going to the even significand. An integer of at most 53 bits is kept as it is.
\<close>

fun bit_length :: "nat \<Rightarrow> nat" where
  "bit_length n = (if n = 0 then 0 else Suc (bit_length (n div 2)))"

declare bit_length.simps [simp del]

definition float64_of_int :: "int \<Rightarrow> rat" where
  "float64_of_int n =
     (let q = 2 ^ (bit_length (nat \<bar>n\<bar>) - 53)
      in of_int (round_half_even (of_int n / of_int q) * q))"

text \<open>
  The window functions of pandas work on float64: an int64 column is cast, a column of
  dtype object is refused. The comparison of the int64 column \<^verbatim>\<open>close\<close> with the float64
  column \<^verbatim>\<open>rolling_mean\<close> casts it in the same way.
\<close>

fun as_float64 :: "column \<Rightarrow> error + rat option list" where
  "as_float64 (IntCol ns) = Inr (map (\<lambda>n. Some (float64_of_int n)) ns)"
| "as_float64 (NumCol xs) = Inr xs"
| "as_float64 (ObjCol xs) = Inl (DataError ''No numeric types to aggregate'')"

text \<open>
  \<^verbatim>\<open>round(x, 4)\<close>: to the nearest multiple of 1/10000, a tie going to the even one. The
  model rounds the exact quotient; the program rounds the double nearest to it, which
  can fall on the other side of a tie.
\<close>

definition py_round4 :: "rat \<Rightarrow> rat" where
  "py_round4 x = of_int (round_half_even (x * 10000)) / 10000"

text \<open>
  \<^verbatim>\<open>int(x)\<close> of a float: truncation towards zero, here of the exact product and not of
  the rounded one.
\<close>

definition py_int :: "rat \<Rightarrow> int" where
  "py_int x = (if 0 \<le> x then \<lfloor>x\<rfloor> else \<lceil>x\<rceil>)"

text \<open>
  The body of the \<^verbatim>\<open>try\<close> block up to the report. The two derived columns are attached
  to the frame and read back at once; the model binds them to names instead. The calls
  of \<^verbatim>\<open>logging\<close> write to the log file only and are left out.
\<close>

definition try_block :: "yaml_parser \<Rightarrow> csv_parser \<Rightarrow> world \<Rightarrow> args \<Rightarrow> error + pyval" where
  "try_block safe_load read_csv w a =
     bindE (load_config safe_load (files w) (arg_config a)) (\<lambda>config.
     bindE (py_getitem config ''seed'') (\<lambda>seed.
     bindE (py_getitem config ''window'') (\<lambda>window.
     bindE (py_getitem config ''version'') (\<lambda>version.
     bindE (np_random_seed seed) (\<lambda>_.
     bindE (load_data read_csv (files w) (arg_input a)) (\<lambda>df.
     let rows_processed = len_df df in
     bindE (df_getitem df ''close'') (\<lambda>close_col.
     bindE (rolling_window window) (\<lambda>win.
     bindE (as_float64 close_col) (\<lambda>close.
     let rolling = rolling_mean win close;
         sig = signal close rolling;
         rate = mean_int sig;
         latency_ms = py_int ((time_report w - time_start w) * 1000)
     in Inr (PDict
          [(''version'', version),
           (''rows_processed'', PInt (int rows_processed)),
           (''metric'', PStr ''signal_rate''),
           (''value'', PFloat (map_option py_round4 rate)),
           (''latency_ms'', PInt latency_ms),
           (''seed'', seed),
           (''status'', PStr ''success'')]))))))))))"

text \<open>
  The \<^verbatim>\<open>except\<close> branch reads the configuration file again for the version, and keeps
  \<^verbatim>\<open>"unknown"\<close> when the file is absent or anything raises.
\<close>

definition recover_version :: "yaml_parser \<Rightarrow> filesystem \<Rightarrow> string \<Rightarrow> pyval" where
  "recover_version safe_load fs config_path =
     (case fs config_path of
        None \<Rightarrow> PStr ''unknown''
      | Some text \<Rightarrow>
          (case bindE (safe_load text) (\<lambda>config. py_getitem config ''version'') of
             Inl e \<Rightarrow> PStr ''unknown''
           | Inr version \<Rightarrow> version))"

datatype printed = PrintJson pyval | PrintLine string

text \<open>
  A run ends with an exit code, the object dumped as JSON to the output path and what
  was printed. \<^verbatim>\<open>json.dump\<close> is a function of the object, so two equal objects give the
  same bytes.
\<close>

record run_result =
  exit_code :: int
  report :: pyval
  stdout :: printed

definition main :: "yaml_parser \<Rightarrow> csv_parser \<Rightarrow> world \<Rightarrow> args \<Rightarrow> run_result" where
  "main safe_load read_csv w a =
     (case try_block safe_load read_csv w a of
        Inr out \<Rightarrow> \<lparr>exit_code = 0, report = out, stdout = PrintJson out\<rparr>
      | Inl e \<Rightarrow>
          let version = recover_version safe_load (files w) (arg_config a)
          in \<lparr>exit_code = 1,
              report = write_error version (str_of_error e),
              stdout = PrintLine (''Error: '' @ str_of_error e)\<rparr>)"

subsection \<open>The metric as the specification words it\<close>

text \<open>
  The specification describes the signal rate as the mean over the rows at index
  \<open>i \<ge> w - 1\<close> only, the first \<open>w - 1\<close> rows left out of the sum and of the count. This
  definition follows those words, for comparison with \<^const>\<open>signal_rate\<close>.
\<close>

definition spec_signal_rate :: "nat \<Rightarrow> rat option list \<Rightarrow> rat option" where
  "spec_signal_rate w close = mean_int (drop (w - 1) (signal_column w close))"

subsection \<open>A concrete run\<close>

text \<open>
  The scenario of the specification: window 3 over the closing prices 10, 20, 30, 40, 20.
  The two parsers are given by the one text each of them has to read.
\<close>

definition unlines :: "string list \<Rightarrow> string" where
  "unlines ls = concat (map (\<lambda>l. l @ [CHR 0x0A]) ls)"

definition parses :: "string \<Rightarrow> 'a \<Rightarrow> string \<Rightarrow> error + 'a" where
  "parses known v text = (if text = known then Inr v else Inl (OtherError ''cannot parse''))"

definition scenario_config_text :: string where
  "scenario_config_text = unlines [''seed: 42'', ''window: 3'', ''version: v1'']"

definition scenario_config :: pyval where
  "scenario_config = PDict [(''seed'', PInt 42), (''window'', PInt 3), (''version'', PStr ''v1'')]"

definition scenario_csv_text :: string where
  "scenario_csv_text = unlines [''close'', ''10'', ''20'', ''30'', ''40'', ''20'']"

text \<open>The float64 view of the column \<^verbatim>\<open>close\<close> of the scenario.\<close>

definition scenario_close :: "rat option list" where
  "scenario_close = [Some 10, Some 20, Some 30, Some 40, Some 20]"

definition scenario_frame :: dataframe where
  "scenario_frame = [(''close'', IntCol [10, 20, 30, 40, 20])]"

definition scenario_safe_load :: yaml_parser where
  "scenario_safe_load = parses scenario_config_text scenario_config"

definition scenario_read_csv :: csv_parser where
  "scenario_read_csv = parses scenario_csv_text scenario_frame"

definition scenario_args :: args where
  "scenario_args =
     \<lparr>arg_input = ''data.csv'', arg_config = ''config.yaml'',
      arg_output = ''metrics.json'', arg_log_file = ''run.log''\<rparr>"

definition scenario_world :: world where
  "scenario_world =
     \<lparr>files = [''config.yaml'' \<mapsto> scenario_config_text, ''data.csv'' \<mapsto> scenario_csv_text],
      time_start = 1000, time_report = 1000 + 1 / 80\<rparr>"

section \<open>Properties of the series operations\<close>

lemma length_rolling_mean [simp]: "length (rolling_mean w xs) = length xs"
  by (simp add: rolling_mean_def)

lemma nth_rolling_mean:
  "i < length xs \<Longrightarrow> rolling_mean w xs ! i = window_mean w (window_at w xs i)"
  by (simp add: rolling_mean_def)

lemma dropna_map_Some [simp]: "dropna (map Some ps) = ps"
  by (induction ps) auto

lemma length_dropna_le: "length (dropna xs) \<le> length xs"
  by (induction xs rule: dropna.induct) auto

lemma dropna_full: "length (dropna xs) = length xs \<Longrightarrow> xs = map Some (dropna xs)"
proof (induction xs rule: dropna.induct)
  case (2 xs)
  then show ?case using length_dropna_le [of xs] by simp
qed auto

lemma length_window_at: "i < length xs \<Longrightarrow> length (window_at w xs i) = min w (Suc i)"
  by (auto simp: window_at_def)

lemma nth_window_at:
  "i < length xs \<Longrightarrow> k < min w (Suc i) \<Longrightarrow> window_at w xs i ! k = xs ! (Suc i - w + k)"
  by (auto simp: window_at_def)


lemma length_signal_column [simp]: "length (signal_column w close) = length close"
  by (simp add: signal_column_def signal_def)

lemma nth_signal_column:
  "i < length close \<Longrightarrow>
   signal_column w close ! i = (if cell_gt (close ! i) (rolling_mean w close ! i) then 1 else 0)"
  by (simp add: signal_column_def signal_def)

text \<open>A window that yields a mean is full and has no missing cell.\<close>

lemma window_mean_Some_full:
  assumes "window_mean w win = Some m" and "length win \<le> w"
  shows "win = map Some (dropna win) \<and> length win = w \<and> win \<noteq> []"
proof -
  from assms(1) have obs: "w \<le> length (dropna win)" "0 < length (dropna win)"
    by (auto simp: window_mean_def Let_def split: if_splits)
  with assms(2) length_dropna_le [of win] have "length (dropna win) = length win"
    by simp
  with obs assms(2) show ?thesis
    using dropna_full [of win] by auto
qed

text \<open>On the first \<open>w - 1\<close> rows the window is not full, so there is no mean.\<close>

lemma warm_up_None:
  assumes "i < length close" and "i < w - 1"
  shows "rolling_mean w close ! i = None"
proof -
  have "length (dropna (window_at w close i)) \<le> Suc i"
    using length_dropna_le [of "window_at w close i"] assms by (simp add: length_window_at)
  with assms have "\<not> w \<le> length (dropna (window_at w close i))"
    by linarith
  with assms show ?thesis
    by (simp add: nth_rolling_mean window_mean_def Let_def)
qed

lemma sum_list_signal_column:
  "sum_list (signal_column w close) = (\<Sum>i = w - 1..<length close. signal_column w close ! i)"
proof -
  let ?s = "signal_column w close" and ?n = "length close"
  have zero: "?s ! i = 0" if "i < min (w - 1) ?n" for i
    using that warm_up_None [of i close w] by (simp add: nth_signal_column)
  have "sum_list ?s = (\<Sum>i = 0..<?n. ?s ! i)"
    using sum_list_sum_nth [of ?s] by simp
  also have "\<dots> = (\<Sum>i = 0..<min (w - 1) ?n. ?s ! i) + (\<Sum>i = min (w - 1) ?n..<?n. ?s ! i)"
    by (simp add: sum.atLeastLessThan_concat)
  also have "(\<Sum>i = 0..<min (w - 1) ?n. ?s ! i) = 0"
    using zero by simp
  also have "(\<Sum>i = min (w - 1) ?n..<?n. ?s ! i) = (\<Sum>i = w - 1..<?n. ?s ! i)"
    by (cases "w - 1 \<le> ?n") (simp_all add: min_def)
  finally show ?thesis by simp
qed

subsection \<open>The rolling mean\<close>


text \<open>A window whose mean is defined: the row is past the warm-up and no cell is missing.\<close>

lemma rolling_mean_Some_window:
  assumes "i < length close" and "rolling_mean w close ! i = Some m"
  shows "w \<le> Suc i \<and> 0 < w \<and> (\<forall>k<w. close ! (Suc i - w + k) \<noteq> None)"
proof -
  let ?win = "window_at w close i"
  have wm: "window_mean w ?win = Some m"
    using assms by (simp add: nth_rolling_mean)
  have len: "length ?win = min w (Suc i)"
    using assms by (simp add: length_window_at)
  from window_mean_Some_full [OF wm] len
  have full: "?win = map Some (dropna ?win)" and lw: "length ?win = w" and ne: "?win \<noteq> []"
    by auto
  from lw ne have "0 < w" by (metis length_greater_0_conv)
  moreover from lw len have "w \<le> Suc i" by simp
  moreover have "close ! (Suc i - w + k) \<noteq> None" if "k < w" for k
  proof -
    have "?win ! k = close ! (Suc i - w + k)"
      using nth_window_at [OF assms(1), of k w] that \<open>w \<le> Suc i\<close> by simp
    moreover have "?win ! k = Some (dropna ?win ! k)"
      using full lw that by (metis length_map nth_map)
    ultimately show ?thesis by (metis option.distinct(1))
  qed
  ultimately show ?thesis by simp
qed





subsection \<open>The signal\<close>

lemma nth_signal:
  "i < length close \<Longrightarrow> length rm = length close \<Longrightarrow>
   signal close rm ! i = (if cell_gt (close ! i) (rm ! i) then 1 else 0)"
  by (simp add: signal_def)

lemma bit_length_le: "n < 2 ^ k \<Longrightarrow> bit_length n \<le> k"
proof (induction k arbitrary: n)
  case 0
  then show ?case by (simp add: bit_length.simps)
next
  case (Suc k)
  show ?case
  proof (cases "n = 0")
    case True
    then show ?thesis by (simp add: bit_length.simps)
  next
    case False
    from Suc.prems have "n div 2 < 2 ^ k" by simp
    from Suc.IH [OF this] False show ?thesis
      by (subst bit_length.simps) simp
  qed
qed

lemma bit_length_double: "0 < n \<Longrightarrow> bit_length (2 * n) = Suc (bit_length n)"
  by (subst bit_length.simps) simp

lemma bit_length_power: "bit_length (2 ^ k) = Suc k"
proof (induction k)
  case 0
  have "bit_length (Suc 0) = Suc (bit_length 0)"
    by (subst bit_length.simps) simp
  then show ?case
    by (simp add: bit_length.simps [of 0])
next
  case (Suc k)
  then show ?case
    by (simp add: bit_length_double)
qed

lemma round_half_even_of_int [simp]: "round_half_even (of_int z) = z"
  by (simp add: round_half_even_def)

text \<open>The cast keeps an integer of magnitude at most \<open>2^53\<close> as it is.\<close>

lemma float64_of_int_exact:
  assumes "\<bar>n\<bar> \<le> 2 ^ 53"
  shows "float64_of_int n = of_int n"
proof (cases "\<bar>n\<bar> = 2 ^ 53")
  case True
  then have "nat \<bar>n\<bar> = 2 ^ 53"
    by (simp add: nat_power_eq)
  then have "bit_length (nat \<bar>n\<bar>) = Suc 53"
    by (simp only: bit_length_power)
  then have bl: "bit_length (nat \<bar>n\<bar>) - 53 = 1"
    by simp
  from True have "n = 2 ^ 53 \<or> n = - (2 ^ 53)"
    by linarith
  then obtain z :: int where z: "n = z * 2"
    by (metis minus_mult_left mult.commute power_minus_mult zero_less_numeral)
  have "(of_int n :: rat) / of_int 2 = of_int z"
    by (simp add: z)
  then show ?thesis
    unfolding float64_of_int_def Let_def bl by (simp add: z)
next
  case False
  with assms have "nat \<bar>n\<bar> < 2 ^ 53"
    by (simp add: nat_less_iff)
  from bit_length_le [OF this] have "bit_length (nat \<bar>n\<bar>) - 53 = 0"
    by simp
  then show ?thesis
    by (simp add: float64_of_int_def)
qed

text \<open>
  Claim C5, as the code has it. The comparison is made on float64 values: an int64
  column \<^verbatim>\<open>close\<close> is cast to float64 first. At every row \<open>i\<close> where the column
  \<^verbatim>\<open>rolling_mean\<close> is defined, with value \<open>m\<close>, the signal is 1 if the float64 value of
  \<^verbatim>\<open>close\<close> at that row is greater than \<open>m\<close>, and 0 otherwise, so it is 0 when the two are
  equal. For an int64 cell the float64 value is the nearest double; for a cell of
  magnitude at most \<open>2^53\<close> it is the integer itself, and the signal is 1 exactly when
  the stored integer is greater than \<open>m\<close>. Where \<^verbatim>\<open>rolling_mean\<close> is the rolling mean of the
  column, the cell \<^verbatim>\<open>close\<close> of such a row is not missing.
\<close>

theorem signal_compares_float64_close:
  assumes "as_float64 col = Inr close" and "length rm = length close"
    and "i < length close" and "rm ! i = Some m"
  shows "signal close rm ! i = (case close ! i of None \<Rightarrow> 0 | Some c \<Rightarrow> if m < c then 1 else 0)
    \<and> (\<forall>ns. col = IntCol ns \<longrightarrow> close ! i = Some (float64_of_int (ns ! i)))
    \<and> (\<forall>ns. col = IntCol ns \<and> \<bar>ns ! i\<bar> \<le> 2 ^ 53 \<longrightarrow>
          signal close rm ! i = (if m < of_int (ns ! i) then 1 else 0))
    \<and> (\<forall>xs. col = NumCol xs \<longrightarrow> close ! i = xs ! i)
    \<and> (rm = rolling_mean w close \<longrightarrow> close ! i \<noteq> None)"
proof -
  have sig: "signal close rm ! i = (case close ! i of None \<Rightarrow> 0 | Some c \<Rightarrow> if m < c then 1 else 0)"
    using assms by (cases "close ! i") (simp_all add: nth_signal)
  have cast: "close ! i = Some (float64_of_int (ns ! i))" if "col = IntCol ns" for ns
    using that assms(1,3) by auto
  have small: "signal close rm ! i = (if m < of_int (ns ! i) then 1 else 0)"
    if "col = IntCol ns \<and> \<bar>ns ! i\<bar> \<le> 2 ^ 53" for ns
    using that sig cast [of ns] float64_of_int_exact [of "ns ! i"] by simp
  have float: "close ! i = xs ! i" if "col = NumCol xs" for xs
    using that assms(1) by auto
  have present: "close ! i \<noteq> None" if "rm = rolling_mean w close"
  proof -
    from that assms(4) have m: "rolling_mean w close ! i = Some m"
      by simp
    from rolling_mean_Some_window [OF assms(3) m]
    have "0 < w" and "w \<le> Suc i" and "\<forall>k<w. close ! (Suc i - w + k) \<noteq> None"
      by auto
    then have "close ! (Suc i - w + (w - 1)) \<noteq> None"
      by (metis diff_less zero_less_one)
    with \<open>0 < w\<close> \<open>w \<le> Suc i\<close> show ?thesis
      by simp
  qed
  from sig cast small float present show ?thesis
    by blast
qed

text \<open>
  The int64 column of the scenario with window 3: row 2 has price 30 above the mean 20
  and signal 1, row 4 has price 20 below the mean 30 and signal 0. A float64 column with
  window 2 over 4, 6, 5, 5: row 3 has price 5 equal to the mean 5 and signal 0.
\<close>

theorem signal_compares_float64_close_witness:
  "signal scenario_close (rolling_mean 3 scenario_close) ! 2 = 1
   \<and> signal scenario_close (rolling_mean 3 scenario_close) ! 4 = 0
   \<and> signal [Some 4, Some 6, Some 5, Some 5] (rolling_mean 2 [Some 4, Some 6, Some 5, Some 5]) ! 3 = 0"
proof -
  let ?ns = "[10, 20, 30, 40, 20 :: int]"
  let ?xs = "[Some 4, Some 6, Some 5, Some (5 :: rat)]"
  have cast: "as_float64 (IntCol ?ns) = Inr scenario_close"
    by code_simp
  have len: "length (rolling_mean 3 scenario_close) = length scenario_close"
    by simp
  have i2: "(2::nat) < length scenario_close" and i4: "(4::nat) < length scenario_close"
    by (simp_all add: scenario_close_def)
  have m2: "rolling_mean 3 scenario_close ! 2 = Some 20"
    and m4: "rolling_mean 3 scenario_close ! 4 = Some 30"
    by code_simp+
  have float: "as_float64 (NumCol ?xs) = Inr ?xs"
    by simp
  have len': "length (rolling_mean 2 ?xs) = length ?xs"
    by simp
  have i3: "(3::nat) < length ?xs"
    by simp
  have m3: "rolling_mean 2 ?xs ! 3 = Some 5"
    by code_simp
  have "signal scenario_close (rolling_mean 3 scenario_close) ! 2 = 1"
    using signal_compares_float64_close [OF cast len i2 m2, THEN conjunct2, THEN conjunct2,
      THEN conjunct1, THEN spec, of ?ns]
    by simp
  moreover have "signal scenario_close (rolling_mean 3 scenario_close) ! 4 = 0"
    using signal_compares_float64_close [OF cast len i4 m4, THEN conjunct2, THEN conjunct2,
      THEN conjunct1, THEN spec, of ?ns]
    by simp
  moreover have "signal ?xs (rolling_mean 2 ?xs) ! 3 = 0"
    using signal_compares_float64_close [OF float len' i3 m3, THEN conjunct1]
    by simp
  ultimately show ?thesis by simp
qed

text \<open>The cast of \<open>2^53 + 1\<close>, an integer of 54 bits: a tie, which goes to \<open>2^53\<close>.\<close>

lemma bit_length_eq: "2 ^ k \<le> n \<Longrightarrow> n < 2 ^ Suc k \<Longrightarrow> bit_length n = Suc k"
proof (induction k arbitrary: n)
  case 0
  then have "n = 1" by simp
  then show ?case
    by (simp add: bit_length.simps [of "Suc 0"] bit_length.simps [of 0])
next
  case (Suc k)
  then have "2 ^ k \<le> n div 2" and "n div 2 < 2 ^ Suc k" and "n \<noteq> 0"
    by auto
  with Suc.IH [of "n div 2"] show ?case
    by (subst bit_length.simps) simp
qed

lemma float64_of_int_tie: "float64_of_int 9007199254740993 = 9007199254740992"
proof -
  have "bit_length 9007199254740993 = Suc 53"
    by (rule bit_length_eq) simp_all
  then have bits: "bit_length (nat \<bar>9007199254740993\<bar>) = 54"
    by simp
  have half: "\<lfloor>(9007199254740993::rat) / 2\<rfloor> = 4503599627370496"
    by (simp add: floor_eq_iff)
  have "round_half_even (9007199254740993 / 2) = 4503599627370496"
    by (simp add: round_half_even_def Let_def half)
  with bits show ?thesis
    by (simp add: float64_of_int_def Let_def)
qed

lemma rolling_mean_one_cell: "rolling_mean 1 [Some x] = [Some x]"
  by (simp add: rolling_mean_def window_at_def window_mean_def)

lemma signal_equal_cells: "signal [Some x] [Some x] = [0]"
  by (simp add: signal_def)

text \<open>
  Against claim C5 as stated: an int64 column \<^verbatim>\<open>close\<close> with the one cell
  9007199254740993 (\<open>2^53 + 1\<close>) and window 1. The cast gives 9007199254740992, which is
  also the rolling mean of the row; the stored price is greater than the rolling mean,
  yet the signal is 0, and the run reports the value 0.
\<close>

theorem signal_int64_cast_counterexample:
  "as_float64 (IntCol [9007199254740993]) = Inr [Some 9007199254740992]
   \<and> rolling_mean 1 [Some 9007199254740992] = [Some 9007199254740992]
   \<and> (9007199254740992 :: rat) < of_int 9007199254740993
   \<and> signal [Some 9007199254740992] (rolling_mean 1 [Some 9007199254740992]) = [0]
   \<and> py_getitem (report (main
         (parses ''{seed: 42, window: 1, version: v1}''
            (PDict [(''seed'', PInt 42), (''window'', PInt 1), (''version'', PStr ''v1'')]))
         (parses (unlines [''close'', ''9007199254740993''])
            [(''close'', IntCol [9007199254740993])])
         \<lparr>files = [''config.yaml'' \<mapsto> ''{seed: 42, window: 1, version: v1}'',
                    ''data.csv'' \<mapsto> unlines [''close'', ''9007199254740993'']],
            time_start = 0, time_report = 0\<rparr>
         scenario_args)) ''value'' = Inr (PFloat (Some 0))"
proof -
  have cast: "as_float64 (IntCol [9007199254740993]) = Inr [Some 9007199254740992]"
    using float64_of_int_tie by simp
  have run: "py_getitem (report (main
         (parses ''{seed: 42, window: 1, version: v1}''
            (PDict [(''seed'', PInt 42), (''window'', PInt 1), (''version'', PStr ''v1'')]))
         (parses (unlines [''close'', ''9007199254740993''])
            [(''close'', IntCol [9007199254740993])])
         \<lparr>files = [''config.yaml'' \<mapsto> ''{seed: 42, window: 1, version: v1}'',
                    ''data.csv'' \<mapsto> unlines [''close'', ''9007199254740993'']],
            time_start = 0, time_report = 0\<rparr>
         scenario_args)) ''value'' = Inr (PFloat (Some 0))"
    by (simp add: main_def try_block_def load_config_def load_data_def bindE_def parses_def
        required_keys_def df_empty_def df_columns_def df_getitem_def scenario_args_def
        float64_of_int_tie rolling_mean_one_cell [unfolded One_nat_def] signal_equal_cells
        mean_int_def py_round4_def round_half_even_def Let_def)
  show ?thesis
    using cast run
    by (simp add: rolling_mean_one_cell [unfolded One_nat_def] signal_equal_cells)
qed

text \<open>
  Claim C2, as the code has it. The signal column is a column of integers and is never
  undefined: at every row \<open>i < w - 1\<close> of the warm-up the rolling mean is undefined, and
  at every row where the rolling mean is undefined the signal is 0. Every signal is 0
  or 1.
\<close>

theorem signal_zero_where_mean_undefined:
  assumes "i < length close"
  shows "(i < w - 1 \<longrightarrow> rolling_mean w close ! i = None)
       \<and> (rolling_mean w close ! i = None \<longrightarrow> signal_column w close ! i = 0)
       \<and> signal_column w close ! i \<in> {0, 1}"
  using assms warm_up_None [of i close w] by (simp add: nth_signal_column)

theorem signal_zero_where_mean_undefined_witness:
  "rolling_mean 3 scenario_close ! 1 = None \<and> signal_column 3 scenario_close ! 1 = 0"
proof -
  have i: "(1::nat) < length scenario_close"
    by (simp add: scenario_close_def)
  show ?thesis
    using signal_zero_where_mean_undefined [OF i, of 3] by simp
qed

text \<open>
  Against claim C2 as stated: in the scenario, row 0 is a warm-up row, its rolling mean
  is undefined, and its signal holds the value 0.
\<close>

theorem signal_warm_up_counterexample:
  "rolling_mean 3 scenario_close ! 0 = None \<and> signal_column 3 scenario_close ! 0 = 0"
  by code_simp

subsection \<open>The signal rate\<close>

text \<open>
  Claim C1, as the code has it. For every dataset with at least one row and every
  window \<open>w\<close>, the signal rate is the mean of the signal column over all the rows: the
  warm-up rows hold the signal 0, so the sum runs over the rows \<open>i \<ge> w - 1\<close>, and the
  count is the number of all rows, warm-up rows included.
\<close>

theorem signal_rate_over_all_rows:
  assumes "close \<noteq> []"
  shows "signal_rate w close =
           Some (of_int (\<Sum>i = w - 1..<length close. signal_column w close ! i)
                 / of_nat (length close))"
proof -
  have "signal_column w close \<noteq> []"
    using assms length_signal_column [of w close] by (metis length_0_conv)
  then show ?thesis
    by (simp add: signal_rate_def mean_int_def sum_list_signal_column)
qed

theorem signal_rate_over_all_rows_witness:
  "signal_rate 3 scenario_close
     = Some (of_int (\<Sum>i = 2..<5. signal_column 3 scenario_close ! i) / 5)"
proof -
  have ne: "scenario_close \<noteq> []"
    by (simp add: scenario_close_def)
  have len: "length scenario_close = 5"
    by (simp add: scenario_close_def)
  show ?thesis
    using signal_rate_over_all_rows [OF ne, of 3] by (simp add: len)
qed

text \<open>
  Against claim C1 as stated: in the scenario the signal rate is 2/5, the mean over all
  five rows, while the mean over the rows at index \<open>i \<ge> 2\<close> only is 2/3.
\<close>

theorem signal_rate_counterexample:
  "signal_rate 3 scenario_close = Some (2 / 5)
   \<and> spec_signal_rate 3 scenario_close = Some (2 / 3)
   \<and> signal_rate 3 scenario_close \<noteq> spec_signal_rate 3 scenario_close"
  by code_simp

section \<open>Properties of the loaders\<close>

lemma check_required_dict:
  "check_required (PDict kvs) keys =
     (case find (\<lambda>k. k \<notin> set (map fst kvs)) keys of
        None \<Rightarrow> Inr ()
      | Some key \<Rightarrow> Inl (ValueError (''Missing config key: '' @ key)))"
  by (induction keys) auto

lemma map_of_key: "map_of kvs k = Some v \<Longrightarrow> k \<in> set (map fst kvs)"
  by (metis map_of_eq_None_iff option.distinct(1) set_map)

text \<open>
  Claim C6. When the configuration file parses to a mapping that lacks one of the keys
  seed, window, version, \<^verbatim>\<open>load_config\<close> fails with the \<^verbatim>\<open>ValueError\<close>
  \<^verbatim>\<open>Missing config key: <key>\<close>, where \<open>key\<close> is the first of the three, in that order,
  that the mapping lacks.
\<close>

theorem load_config_first_missing_key:
  assumes "fs path = Some content"
    and "safe_load content = Inr (PDict kvs)"
    and "find (\<lambda>k. k \<notin> set (map fst kvs)) required_keys = Some key"
  shows "load_config safe_load fs path = Inl (ValueError (''Missing config key: '' @ key))"
  using assms by (simp add: load_config_def bindE_def check_required_dict)

text \<open>A configuration with seed and version but no window: the key named is window.\<close>

theorem load_config_first_missing_key_witness:
  "load_config (parses ''{seed: 1, version: v1}'' (PDict [(''seed'', PInt 1), (''version'', PStr ''v1'')]))
     [''c.yaml'' \<mapsto> ''{seed: 1, version: v1}''] ''c.yaml''
   = Inl (ValueError ''Missing config key: window'')"
proof -
  let ?kvs = "[(''seed'', PInt 1), (''version'', PStr ''v1'')]"
  let ?fs = "[''c.yaml'' \<mapsto> ''{seed: 1, version: v1}'']"
  have f: "?fs ''c.yaml'' = Some ''{seed: 1, version: v1}''"
    by simp
  have p: "parses ''{seed: 1, version: v1}'' (PDict ?kvs) ''{seed: 1, version: v1}'' = Inr (PDict ?kvs)"
    by (simp add: parses_def)
  have k: "find (\<lambda>k. k \<notin> set (map fst ?kvs)) required_keys = Some ''window''"
    by (simp add: required_keys_def)
  show ?thesis
    using load_config_first_missing_key [where fs = "?fs" and path = "''c.yaml''"
        and content = "''{seed: 1, version: v1}''" and kvs = "?kvs" and key = "''window''"
        and safe_load = "parses ''{seed: 1, version: v1}'' (PDict ?kvs)", OF f p k]
    by simp
qed

text \<open>
  Claim C7. \<^verbatim>\<open>load_data\<close> fails with \<^verbatim>\<open>FileNotFoundError\<close> when the path does not exist;
  otherwise with \<^verbatim>\<open>ValueError("Invalid CSV file format")\<close> when the parser raises;
  otherwise with \<^verbatim>\<open>ValueError("Input CSV file is empty")\<close> when the frame has no row;
  otherwise with \<^verbatim>\<open>ValueError("Missing required column: close")\<close> when the frame has no
  column \<^verbatim>\<open>close\<close>; otherwise it returns the frame.
\<close>

theorem load_data_checks_in_order:
  "(fs path = None \<longrightarrow>
      load_data read_csv fs path = Inl (FileNotFoundError ''Input CSV file not found''))
   \<and> (\<forall>content e. fs path = Some content \<and> read_csv content = Inl e \<longrightarrow>
      load_data read_csv fs path = Inl (ValueError ''Invalid CSV file format''))
   \<and> (\<forall>content df. fs path = Some content \<and> read_csv content = Inr df \<and> len_df df = 0 \<longrightarrow>
      load_data read_csv fs path = Inl (ValueError ''Input CSV file is empty''))
   \<and> (\<forall>content df. fs path = Some content \<and> read_csv content = Inr df \<and> 0 < len_df df
        \<and> ''close'' \<notin> set (df_columns df) \<longrightarrow>
      load_data read_csv fs path = Inl (ValueError ''Missing required column: close''))
   \<and> (\<forall>content df. fs path = Some content \<and> read_csv content = Inr df \<and> 0 < len_df df
        \<and> ''close'' \<in> set (df_columns df) \<longrightarrow>
      load_data read_csv fs path = Inr df)"
  by (auto simp: load_data_def df_empty_def)

text \<open>
  One input for each of the five outcomes: no file; a file the parser refuses; a frame
  with the column \<^verbatim>\<open>close\<close> and no row; a frame with a row and no column \<^verbatim>\<open>close\<close>; the
  frame of the scenario.
\<close>

theorem load_data_checks_in_order_witness:
  "load_data scenario_read_csv Map.empty ''data.csv''
     = Inl (FileNotFoundError ''Input CSV file not found'')
   \<and> load_data scenario_read_csv [''data.csv'' \<mapsto> ''not a table''] ''data.csv''
     = Inl (ValueError ''Invalid CSV file format'')
   \<and> load_data (parses ''close'' [(''close'', NumCol [])]) [''data.csv'' \<mapsto> ''close''] ''data.csv''
     = Inl (ValueError ''Input CSV file is empty'')
   \<and> load_data (parses ''open'' [(''open'', NumCol [Some 1])]) [''data.csv'' \<mapsto> ''open''] ''data.csv''
     = Inl (ValueError ''Missing required column: close'')
   \<and> load_data scenario_read_csv (files scenario_world) ''data.csv'' = Inr scenario_frame"
proof -
  have "load_data scenario_read_csv Map.empty ''data.csv''
      = Inl (FileNotFoundError ''Input CSV file not found'')"
    using load_data_checks_in_order [of Map.empty "''data.csv''" scenario_read_csv]
    by simp
  moreover have "load_data scenario_read_csv [''data.csv'' \<mapsto> ''not a table''] ''data.csv''
      = Inl (ValueError ''Invalid CSV file format'')"
    using load_data_checks_in_order [of "[''data.csv'' \<mapsto> ''not a table'']" "''data.csv''" scenario_read_csv]
    by (simp add: scenario_read_csv_def parses_def scenario_csv_text_def unlines_def)
  moreover have "load_data (parses ''close'' [(''close'', NumCol [])]) [''data.csv'' \<mapsto> ''close''] ''data.csv''
      = Inl (ValueError ''Input CSV file is empty'')"
    using load_data_checks_in_order [of "[''data.csv'' \<mapsto> ''close'']" "''data.csv''"
      "parses ''close'' [(''close'', NumCol [])]"]
    by (simp add: parses_def)
  moreover have "load_data (parses ''open'' [(''open'', NumCol [Some 1])]) [''data.csv'' \<mapsto> ''open''] ''data.csv''
      = Inl (ValueError ''Missing required column: close'')"
    using load_data_checks_in_order [of "[''data.csv'' \<mapsto> ''open'']" "''data.csv''"
      "parses ''open'' [(''open'', NumCol [Some 1])]"]
    by (simp add: parses_def df_columns_def)
  moreover have "load_data scenario_read_csv (files scenario_world) ''data.csv'' = Inr scenario_frame"
    using load_data_checks_in_order [of "files scenario_world" "''data.csv''" scenario_read_csv]
    by (simp add: scenario_world_def scenario_read_csv_def parses_def scenario_frame_def
        scenario_close_def df_columns_def)
  ultimately show ?thesis by simp
qed

text \<open>
  Claim C9. \<^verbatim>\<open>load_data\<close> does not look at the type of the column \<^verbatim>\<open>close\<close>: a frame
  with at least one row whose column \<^verbatim>\<open>close\<close> holds text is returned as it is. The run
  fails later, when the rolling mean is asked of the column: with a configuration that
  loads and a seed that numpy accepts, the \<^verbatim>\<open>try\<close> block ends with the exception of
  pandas, not with a validation error of \<^verbatim>\<open>load_data\<close>.
\<close>

theorem load_data_accepts_text_close:
  assumes "files w (arg_input a) = Some content"
    and "read_csv content = Inr df"
    and "0 < len_df df"
    and "map_of df ''close'' = Some (ObjCol cells)"
  shows "load_data read_csv (files w) (arg_input a) = Inr df
       \<and> (\<forall>config seed n version.
            load_config safe_load (files w) (arg_config a) = Inr config
            \<and> py_getitem config ''seed'' = Inr seed \<and> np_random_seed seed = Inr ()
            \<and> py_getitem config ''window'' = Inr (PInt n) \<and> 0 \<le> n
            \<and> py_getitem config ''version'' = Inr version \<longrightarrow>
            try_block safe_load read_csv w a = Inl (DataError ''No numeric types to aggregate''))"
proof -
  have "''close'' \<in> set (df_columns df)"
    using map_of_key [OF assms(4)] by (simp add: df_columns_def)
  with assms have ld: "load_data read_csv (files w) (arg_input a) = Inr df"
    by (auto simp: load_data_def df_empty_def)
  show ?thesis
    using ld assms(4) by (auto simp: try_block_def bindE_def df_getitem_def)
qed

text \<open>
  The configuration of the scenario with a CSV file whose closing prices are words: the
  file is loaded, and the report of the run carries the message of pandas.
\<close>

theorem load_data_accepts_text_close_witness:
  "load_data (parses ''close,ten,twenty'' [(''close'', ObjCol [Some ''ten'', Some ''twenty''])])
     (files (scenario_world\<lparr>files := (files scenario_world)(''data.csv'' \<mapsto> ''close,ten,twenty'')\<rparr>))
     (arg_input scenario_args)
     = Inr [(''close'', ObjCol [Some ''ten'', Some ''twenty''])]
   \<and> try_block scenario_safe_load
       (parses ''close,ten,twenty'' [(''close'', ObjCol [Some ''ten'', Some ''twenty''])])
       (scenario_world\<lparr>files := (files scenario_world)(''data.csv'' \<mapsto> ''close,ten,twenty'')\<rparr>)
       scenario_args
     = Inl (DataError ''No numeric types to aggregate'')"
proof -
  let ?df = "[(''close'', ObjCol [Some ''ten'', Some ''twenty''])]"
  let ?rc = "parses ''close,ten,twenty'' ?df"
  let ?w = "scenario_world\<lparr>files := (files scenario_world)(''data.csv'' \<mapsto> ''close,ten,twenty'')\<rparr>"
  have f: "files ?w (arg_input scenario_args) = Some ''close,ten,twenty''"
    by (simp add: scenario_args_def)
  have p: "?rc ''close,ten,twenty'' = Inr ?df"
    by (simp add: parses_def)
  have n: "0 < len_df ?df"
    by simp
  have c: "map_of ?df ''close'' = Some (ObjCol [Some ''ten'', Some ''twenty''])"
    by simp
  have lc: "load_config scenario_safe_load (files ?w) (arg_config scenario_args) = Inr scenario_config"
    by code_simp
  note t = load_data_accepts_text_close [where w = "?w" and a = scenario_args
      and content = "''close,ten,twenty''" and read_csv = "?rc" and df = "?df"
      and cells = "[Some ''ten'', Some ''twenty'']" and safe_load = scenario_safe_load,
      OF f p n c]
  from t have "load_data ?rc (files ?w) (arg_input scenario_args) = Inr ?df"
    by simp
  moreover from t [THEN conjunct2, THEN spec, THEN spec, THEN spec, THEN spec,
      of scenario_config "PInt 42" 3 "PStr ''v1''"] lc
  have "try_block scenario_safe_load ?rc ?w scenario_args
      = Inl (DataError ''No numeric types to aggregate'')"
    by (simp add: scenario_config_def)
  ultimately show ?thesis by simp
qed

text \<open>
  Claim C10. The \<^verbatim>\<open>except\<close> branch reads the configuration file again and takes its
  \<^verbatim>\<open>version\<close> entry without looking at its type: when the configuration is a mapping with
  an integer seed, a positive integer window and a version that is not a string,
  \<^verbatim>\<open>load_config\<close> fails with \<^verbatim>\<open>ValueError("Version must be string")\<close>, and the error report
  carries that version value, not \<^verbatim>\<open>"unknown"\<close>.
\<close>

theorem error_report_keeps_version_of_any_type:
  assumes "files w (arg_config a) = Some content"
    and "safe_load content = Inr (PDict kvs)"
    and "map_of kvs ''seed'' = Some seed" and "isinstance_int seed"
    and "map_of kvs ''window'' = Some window" and "isinstance_int window"
    and "0 < int_value window"
    and "map_of kvs ''version'' = Some version" and "\<not> isinstance_str version"
  shows "load_config safe_load (files w) (arg_config a) = Inl (ValueError ''Version must be string'')
       \<and> report (main safe_load read_csv w a) =
           PDict [(''version'', version), (''status'', PStr ''error''),
                  (''error_message'', PStr ''Version must be string'')]
       \<and> exit_code (main safe_load read_csv w a) = 1"
proof -
  have keys: "check_required (PDict kvs) required_keys = Inr ()"
    using map_of_key [OF assms(3)] map_of_key [OF assms(5)] map_of_key [OF assms(8)]
    by (simp add: check_required_dict required_keys_def)
  have lc: "load_config safe_load (files w) (arg_config a)
      = Inl (ValueError ''Version must be string'')"
    using assms keys by (simp add: load_config_def bindE_def)
  have rv: "recover_version safe_load (files w) (arg_config a) = version"
    using assms by (simp add: recover_version_def bindE_def)
  show ?thesis
    using lc rv by (simp add: main_def try_block_def bindE_def write_error_def)
qed

text \<open>A configuration with \<^verbatim>\<open>version: 2\<close>: the error report has the integer 2 as version.\<close>

theorem error_report_keeps_version_of_any_type_witness:
  "report (main
      (parses ''{seed: 42, window: 3, version: 2}''
         (PDict [(''seed'', PInt 42), (''window'', PInt 3), (''version'', PInt 2)]))
      scenario_read_csv
      (scenario_world\<lparr>files := (files scenario_world)(''config.yaml'' \<mapsto> ''{seed: 42, window: 3, version: 2}'')\<rparr>)
      scenario_args)
   = PDict [(''version'', PInt 2), (''status'', PStr ''error''),
            (''error_message'', PStr ''Version must be string'')]"
proof -
  let ?kvs = "[(''seed'', PInt 42), (''window'', PInt 3), (''version'', PInt 2)]"
  let ?sl = "parses ''{seed: 42, window: 3, version: 2}'' (PDict ?kvs)"
  let ?w = "scenario_world\<lparr>files := (files scenario_world)(''config.yaml'' \<mapsto> ''{seed: 42, window: 3, version: 2}'')\<rparr>"
  have f: "files ?w (arg_config scenario_args) = Some ''{seed: 42, window: 3, version: 2}''"
    by (simp add: scenario_args_def)
  have p: "?sl ''{seed: 42, window: 3, version: 2}'' = Inr (PDict ?kvs)"
    by (simp add: parses_def)
  have s: "map_of ?kvs ''seed'' = Some (PInt 42)" "isinstance_int (PInt 42)"
    and wi: "map_of ?kvs ''window'' = Some (PInt 3)" "isinstance_int (PInt 3)" "0 < int_value (PInt 3)"
    and v: "map_of ?kvs ''version'' = Some (PInt 2)" "\<not> isinstance_str (PInt 2)"
    by simp_all
  show ?thesis
    using error_report_keeps_version_of_any_type [where w = "?w" and a = scenario_args
        and content = "''{seed: 42, window: 3, version: 2}''" and safe_load = "?sl" and kvs = "?kvs"
        and seed = "PInt 42" and window = "PInt 3" and version = "PInt 2"
        and read_csv = scenario_read_csv, OF f p s wi v]
    by simp
qed

section \<open>Properties of a run\<close>

text \<open>
  The value of a success report is the signal rate of the float64 view of the column
  \<^verbatim>\<open>close\<close> for the configured window, rounded to four decimals; its row count is that
  of the frame.
\<close>

lemma try_block_reports_signal_rate:
  assumes "try_block safe_load read_csv w a = Inr out"
  shows "\<exists>config df close n.
           load_config safe_load (files w) (arg_config a) = Inr config
         \<and> py_getitem config ''window'' = Inr (PInt n) \<and> 0 \<le> n
         \<and> load_data read_csv (files w) (arg_input a) = Inr df
         \<and> bindE (df_getitem df ''close'') as_float64 = Inr close
         \<and> py_getitem out ''value'' = Inr (PFloat (map_option py_round4 (signal_rate (nat n) close)))
         \<and> py_getitem out ''rows_processed'' = Inr (PInt (int (len_df df)))"
proof -
  from assms obtain config seed window version df col win close where
    lc: "load_config safe_load (files w) (arg_config a) = Inr config"
    and wi: "py_getitem config ''window'' = Inr window"
    and ld: "load_data read_csv (files w) (arg_input a) = Inr df"
    and gc: "df_getitem df ''close'' = Inr col"
    and rw: "rolling_window window = Inr win"
    and af: "as_float64 col = Inr close"
    and out: "out = PDict
          [(''version'', version),
           (''rows_processed'', PInt (int (len_df df))),
           (''metric'', PStr ''signal_rate''),
           (''value'', PFloat (map_option py_round4 (mean_int (signal close (rolling_mean win close))))),
           (''latency_ms'', PInt (py_int ((time_report w - time_start w) * 1000))),
           (''seed'', seed),
           (''status'', PStr ''success'')]"
    by (auto simp: try_block_def bindE_def Let_def simp del: left_diff_distrib_numeral
        split: sum.splits)
  from rw obtain n where n: "window = PInt n" "0 \<le> n" "win = nat n"
    by (cases window) (auto split: if_splits)
  from gc af have col: "bindE (df_getitem df ''close'') as_float64 = Inr close"
    by (simp add: bindE_def)
  show ?thesis
    using lc wi ld col n out by (auto simp: signal_rate_def signal_column_def)
qed

text \<open>
  Claim C3, as the code has it. The run of the scenario (seed 42, window 3, version v1,
  closing prices 10, 20, 30, 40, 20) has the rolling mean undefined, undefined, 20, 30,
  30 and the signal 0, 0, 1, 1, 0; it ends with exit code 0 and the success report with
  5 rows processed and the value 0.4, the mean of the five signals.
\<close>

theorem scenario_run:
  "rolling_mean 3 scenario_close = [None, None, Some 20, Some 30, Some 30]
   \<and> signal_column 3 scenario_close = [0, 0, 1, 1, 0]
   \<and> exit_code (main scenario_safe_load scenario_read_csv scenario_world scenario_args) = 0
   \<and> report (main scenario_safe_load scenario_read_csv scenario_world scenario_args) =
       PDict [(''version'', PStr ''v1''),
              (''rows_processed'', PInt 5),
              (''metric'', PStr ''signal_rate''),
              (''value'', PFloat (Some (4 / 10))),
              (''latency_ms'', PInt 12),
              (''seed'', PInt 42),
              (''status'', PStr ''success'')]"
  by code_simp

theorem scenario_run_witness:
  "py_getitem (report (main scenario_safe_load scenario_read_csv scenario_world scenario_args))
     ''value'' = Inr (PFloat (Some (2 / 5)))
   \<and> py_getitem (report (main scenario_safe_load scenario_read_csv scenario_world scenario_args))
     ''status'' = Inr (PStr ''success'')"
  using scenario_run by simp

text \<open>
  Against claim C3 as stated: the value of the report is 2/5, not 3333/10000, and the
  signal of the two warm-up rows is 0.
\<close>

theorem scenario_value_counterexample:
  "py_getitem (report (main scenario_safe_load scenario_read_csv scenario_world scenario_args))
     ''value'' \<noteq> Inr (PFloat (Some (3333 / 10000)))
   \<and> take 2 (signal_column 3 scenario_close) = [0, 0]"
  by code_simp

end
